theory Spec2Isabelle
  imports Main "HOL-Library.Sublist"
begin

section \<open>Role store: the \<open>user_roles\<close> table and its two read functions\<close>

text \<open>
  The migration declares the enum \<open>app_role\<close>, the table \<open>user_roles\<close> and the two
  \<open>SECURITY DEFINER\<close> functions \<open>has_role\<close> and \<open>get_user_role\<close>. Identifiers
  (UUIDs) and timestamps are opaque values compared for equality only; they are
  modelled as natural numbers. A nullable column is an \<open>option\<close>.
\<close>

type_synonym uuid = nat
type_synonym timestamp = nat

datatype app_role = Admin | Agent | User

text \<open>
  One row of \<open>public.user_roles\<close>. The surrogate key \<open>id\<close> (a random UUID that no
  statement of the migration or of the client reads) and \<open>created_at\<close> are left out.
\<close>

record user_role_row =
  user_id :: uuid
  role :: app_role
  approved_by :: "uuid option"
  approved_at :: "timestamp option"

text \<open>
  \<open>has_role(_user_id, _role)\<close>: \<open>SELECT EXISTS (SELECT 1 FROM user_roles WHERE
  user_id = _user_id AND role = _role)\<close>. It reads the table itself (the function is
  \<open>SECURITY DEFINER\<close>), not the rows the caller's policies would show. The first
  argument is \<open>auth.uid()\<close> in every policy, which is NULL for a request without a
  session; \<open>user_id = NULL\<close> holds for no row.
\<close>

definition has_role :: "user_role_row list \<Rightarrow> uuid option \<Rightarrow> app_role \<Rightarrow> bool" where
  "has_role rows uid r =
     (case uid of
        None \<Rightarrow> False
      | Some u \<Rightarrow> list_ex (\<lambda>x. user_id x = u \<and> role x = r) rows)"

text \<open>The sort key of \<open>get_user_role\<close>: \<open>CASE role WHEN 'admin' THEN 1 WHEN 'agent' THEN 2 ELSE 3 END\<close>.\<close>

fun role_rank :: "app_role \<Rightarrow> nat" where
  "role_rank Admin = 1"
| "role_rank Agent = 2"
| "role_rank _ = 3"

text \<open>
  \<open>get_user_role(_user_id)\<close>: \<open>SELECT role FROM user_roles WHERE user_id = _user_id
  ORDER BY (rank) LIMIT 1\<close>. A SQL function whose final query yields no row returns
  NULL, here \<open>None\<close>.
\<close>

definition get_user_role :: "user_role_row list \<Rightarrow> uuid \<Rightarrow> app_role option" where
  "get_user_role rows u =
     (case sort_key role_rank (map role (filter (\<lambda>x. user_id x = u) rows)) of
        [] \<Rightarrow> None
      | r # _ \<Rightarrow> Some r)"

section \<open>The database and its row-level-security policies\<close>

datatype app_status = Pending | Approved | Rejected

record profile_row =
  p_user_id :: uuid
  p_full_name :: "string option"
  p_phone :: "string option"
  p_avatar_url :: "string option"

record application_row =
  a_id :: uuid
  a_user_id :: uuid
  a_full_name :: string
  a_phone :: string
  a_email :: string
  a_company :: "string option"
  a_license_number :: "string option"
  a_experience_years :: "int option"
  a_status :: app_status
  a_reviewed_by :: "uuid option"
  a_reviewed_at :: "timestamp option"
  a_notes :: "string option"

text \<open>
  The database: the identifiers present in \<open>auth.users\<close> (every \<open>REFERENCES
  auth.users(id)\<close> points there) and the three tables of the migration.
\<close>

record db =
  auth_users :: "uuid list"
  user_roles :: "user_role_row list"
  profiles :: "profile_row list"
  agent_applications :: "application_row list"

text \<open>
  The policies, each a predicate over the acting principal \<open>auth.uid()\<close> and the row.
  \<open>auth.uid() = user_id\<close> is not true when \<open>auth.uid()\<close> is NULL.
\<close>

definition users_can_view_their_own_roles :: "db \<Rightarrow> uuid option \<Rightarrow> user_role_row \<Rightarrow> bool" where
  "users_can_view_their_own_roles d uid row = (uid = Some (user_id row))"

definition admins_can_view_all_roles :: "db \<Rightarrow> uuid option \<Rightarrow> user_role_row \<Rightarrow> bool" where
  "admins_can_view_all_roles d uid row = has_role (user_roles d) uid Admin"

definition admins_can_insert_roles :: "db \<Rightarrow> uuid option \<Rightarrow> user_role_row \<Rightarrow> bool" where
  "admins_can_insert_roles d uid row = has_role (user_roles d) uid Admin"

definition admins_can_update_applications :: "db \<Rightarrow> uuid option \<Rightarrow> application_row \<Rightarrow> bool" where
  "admins_can_update_applications d uid row = has_role (user_roles d) uid Admin"

text \<open>
  Row-level security is enabled on each table, so access is denied unless a policy of
  the command allows it, and the permissive policies of one command are combined with
  OR. A \<open>SELECT\<close> on \<open>user_roles\<close> returns the rows that one of its two \<open>SELECT\<close>
  policies admits.
\<close>

definition select_user_roles :: "db \<Rightarrow> uuid option \<Rightarrow> user_role_row list" where
  "select_user_roles d uid =
     filter (\<lambda>row. users_can_view_their_own_roles d uid row \<or> admins_can_view_all_roles d uid row)
       (user_roles d)"

section \<open>Statements against the database\<close>

text \<open>
  The error object the client library hands back; the handlers read only its
  \<open>message\<close>. The texts below are PostgreSQL's for the three ways a statement of this
  schema is refused (written without the double quotes around identifiers).
\<close>

datatype pg_error = PgError (message: string)

definition unique_violation :: "string \<Rightarrow> pg_error" where
  "unique_violation c = PgError (''duplicate key value violates unique constraint '' @ c)"

definition foreign_key_violation :: "string \<Rightarrow> pg_error" where
  "foreign_key_violation t =
     PgError (''insert or update on table '' @ t @ '' violates foreign key constraint'')"

definition rls_violation :: "string \<Rightarrow> pg_error" where
  "rls_violation t = PgError (''new row violates row-level security policy for table '' @ t)"

text \<open>
  \<open>INSERT INTO user_roles\<close> as the table's constraints see it, with no policy applied:
  \<open>UNIQUE (user_id, role)\<close> first, then the two references to \<open>auth.users\<close>. A
  refused statement changes nothing.
\<close>

definition references_auth_users :: "db \<Rightarrow> uuid option \<Rightarrow> bool" where
  "references_auth_users d ref =
     (case ref of None \<Rightarrow> True | Some u \<Rightarrow> u \<in> set (auth_users d))"

definition insert_into_user_roles :: "db \<Rightarrow> user_role_row \<Rightarrow> pg_error + db" where
  "insert_into_user_roles d row =
     (if list_ex (\<lambda>x. user_id x = user_id row \<and> role x = role row) (user_roles d)
      then Inl (unique_violation ''user_roles_user_id_role_key'')
      else if \<not> (references_auth_users d (Some (user_id row))
                 \<and> references_auth_users d (approved_by row))
      then Inl (foreign_key_violation ''user_roles'')
      else Inr (d\<lparr>user_roles := user_roles d @ [row]\<rparr>))"

text \<open>\<open>INSERT INTO profiles\<close>: \<open>user_id\<close> is \<open>UNIQUE\<close> and references \<open>auth.users\<close>.\<close>

definition insert_into_profiles :: "db \<Rightarrow> profile_row \<Rightarrow> pg_error + db" where
  "insert_into_profiles d row =
     (if list_ex (\<lambda>x. p_user_id x = p_user_id row) (profiles d)
      then Inl (unique_violation ''profiles_user_id_key'')
      else if \<not> references_auth_users d (Some (p_user_id row))
      then Inl (foreign_key_violation ''profiles'')
      else Inr (d\<lparr>profiles := profiles d @ [row]\<rparr>))"

text \<open>
  The two requests the admin page sends. Each is one statement run for the acting
  principal \<open>uid\<close> with the policies applied, and each returns \<open>{ error }\<close> rather
  than throwing. \<open>net\<close> is what happens to the request on the way: \<open>None\<close> when it
  reaches the database, \<open>Some e\<close> when it fails before that and the client library
  reports \<open>e\<close>.

  \<open>.from('user_roles').insert(row)\<close>: the \<open>WITH CHECK\<close> of "Admins can insert roles"
  is tested on the new row before the constraints.
\<close>

definition client_insert_user_roles ::
  "pg_error option \<Rightarrow> db \<Rightarrow> uuid option \<Rightarrow> user_role_row \<Rightarrow> db \<times> pg_error option" where
  "client_insert_user_roles net d uid row =
     (case net of
        Some e \<Rightarrow> (d, Some e)
      | None \<Rightarrow>
          if \<not> admins_can_insert_roles d uid row then (d, Some (rls_violation ''user_roles''))
          else (case insert_into_user_roles d row of
                  Inl e \<Rightarrow> (d, Some e)
                | Inr d' \<Rightarrow> (d', None)))"

text \<open>
  \<open>.from('agent_applications').update({status, reviewed_by, reviewed_at}).eq('id', applicationId)\<close>:
  the statement touches the rows with that \<open>id\<close> that the \<open>USING\<close> of "Admins can
  update applications" admits (that policy implies the \<open>SELECT\<close> policy "Admins can
  view all applications", so reading \<open>id\<close> adds no condition); rows it does not admit
  are skipped without an error. \<open>reviewed_by\<close> is \<open>user?.id\<close>: when there is no
  user the key is \<open>undefined\<close>, is dropped from the request body, and the column keeps
  its value. A \<open>reviewed_by\<close> that is not in \<open>auth.users\<close> refuses the statement if it
  would change a row.
\<close>

definition client_update_agent_applications ::
  "pg_error option \<Rightarrow> db \<Rightarrow> uuid option \<Rightarrow> uuid \<Rightarrow> app_status \<Rightarrow> uuid option \<Rightarrow> timestamp
     \<Rightarrow> db \<times> pg_error option" where
  "client_update_agent_applications net d uid applicationId status reviewer now =
     (case net of
        Some e \<Rightarrow> (d, Some e)
      | None \<Rightarrow>
          let hit = (\<lambda>a. a_id a = applicationId \<and> admins_can_update_applications d uid a)
          in if list_ex hit (agent_applications d) \<and> \<not> references_auth_users d reviewer
             then (d, Some (foreign_key_violation ''agent_applications''))
             else (d\<lparr>agent_applications :=
                       map (\<lambda>a. if hit a
                                 then a\<lparr>a_status := status,
                                         a_reviewed_by :=
                                           (case reviewer of None \<Rightarrow> a_reviewed_by a | Some u \<Rightarrow> Some u),
                                         a_reviewed_at := Some now\<rparr>
                                 else a)
                         (agent_applications d)\<rparr>,
                   None))"

section \<open>The application workflow: \<open>handleApplicationAction\<close>\<close>

text \<open>JavaScript's \<open>s.includes(t)\<close>: \<open>t\<close> occurs in \<open>s\<close> as a contiguous substring.\<close>

fun str_includes :: "string \<Rightarrow> string \<Rightarrow> bool" where
  "str_includes [] t = (t = [])"
| "str_includes (c # cs) t = (prefix t (c # cs) \<or> str_includes cs t)"

datatype action = ActApproved | ActRejected

fun action_status :: "action \<Rightarrow> app_status" where
  "action_status ActApproved = Approved"
| "action_status ActRejected = Rejected"

fun action_text :: "action \<Rightarrow> string" where
  "action_text ActApproved = ''approved''"
| "action_text ActRejected = ''rejected''"

text \<open>What the handler shows at its end: \<open>toast.success\<close> or \<open>toast.error\<close>.\<close>

datatype toast = ToastSuccess string | ToastError string

text \<open>
  What the handler takes from its surroundings: the signed-in principal (\<open>user?.id\<close>
  in the page and \<open>auth.uid()\<close> in the database both come from the one session), the
  fate of each of its two requests, and the clock read by each \<open>new Date()\<close>.
\<close>

record env =
  acting :: "uuid option"
  net_update :: "pg_error option"
  net_insert :: "pg_error option"
  now_update :: timestamp
  now_insert :: timestamp

text \<open>
  \<open>handleApplicationAction(applicationId, userId, action)\<close>. The \<open>try\<close> block sends
  the update, throws its error if there is one, and for \<open>'approved'\<close> sends the insert
  and throws its error unless the message contains \<open>duplicate\<close>; the \<open>catch\<close> turns
  a throw into the error toast. The two requests are separate statements: the second
  starts from the database the first one left. (\<open>fetchApplications\<close>, called after the
  success toast, only reads.)
\<close>

definition handleApplicationAction :: "env \<Rightarrow> db \<Rightarrow> uuid \<Rightarrow> uuid \<Rightarrow> action \<Rightarrow> db \<times> toast" where
  "handleApplicationAction e d applicationId userId act =
     (case client_update_agent_applications (net_update e) d (acting e) applicationId
             (action_status act) (acting e) (now_update e) of
        (d1, Some updateError) \<Rightarrow> (d1, ToastError ''Failed to update application'')
      | (d1, None) \<Rightarrow>
          (case act of
             ActApproved \<Rightarrow>
               (case client_insert_user_roles (net_insert e) d1 (acting e)
                       \<lparr>user_id = userId, role = Agent, approved_by = acting e,
                        approved_at = Some (now_insert e)\<rparr> of
                  (d2, Some roleError) \<Rightarrow>
                    if \<not> str_includes (message roleError) ''duplicate''
                    then (d2, ToastError ''Failed to update application'')
                    else (d2, ToastSuccess (''Application '' @ action_text act))
                | (d2, None) \<Rightarrow> (d2, ToastSuccess (''Application '' @ action_text act)))
           | ActRejected \<Rightarrow> (d1, ToastSuccess (''Application '' @ action_text act))))"

section \<open>Account creation: the trigger \<open>on_auth_user_created\<close>\<close>

text \<open>
  The row of \<open>auth.users\<close> the trigger function sees as \<open>NEW\<close>: its \<open>id\<close> and
  \<open>raw_user_meta_data ->> 'full_name'\<close> (NULL when the key is absent).
\<close>

record new_user =
  nu_id :: uuid
  nu_full_name :: "string option"

text \<open>
  \<open>handle_new_user()\<close>: two inserts, run as the function's owner (\<open>SECURITY DEFINER\<close>),
  so no policy applies. An error in either leaves the function by an exception.
\<close>

definition handle_new_user :: "db \<Rightarrow> new_user \<Rightarrow> pg_error + db" where
  "handle_new_user d new =
     (case insert_into_profiles d
             \<lparr>p_user_id = nu_id new, p_full_name = nu_full_name new,
              p_phone = None, p_avatar_url = None\<rparr> of
        Inl e \<Rightarrow> Inl e
      | Inr d1 \<Rightarrow>
          insert_into_user_roles d1
            \<lparr>user_id = nu_id new, role = User, approved_by = None, approved_at = None\<rparr>)"

text \<open>
  \<open>INSERT INTO auth.users\<close> with the trigger \<open>AFTER INSERT ... FOR EACH ROW EXECUTE
  FUNCTION handle_new_user()\<close>. The trigger runs inside the inserting statement, so
  the three rows are written together or, on \<open>Inl\<close>, none is and the database stays
  as it was.
\<close>

definition insert_into_auth_users :: "db \<Rightarrow> new_user \<Rightarrow> pg_error + db" where
  "insert_into_auth_users d new =
     (if nu_id new \<in> set (auth_users d) then Inl (unique_violation ''users_pkey'')
      else handle_new_user (d\<lparr>auth_users := auth_users d @ [nu_id new]\<rparr>) new)"

section \<open>The session and role context: \<open>AuthProvider\<close>\<close>

text \<open>
  A session carries its user; of the user only the \<open>id\<close> is read. The event names
  are the client library's; the provider tests for \<open>SIGNED_OUT\<close> only.
\<close>

record session =
  s_user :: uuid
  s_access_token :: string

datatype auth_change_event =
  INITIAL_SESSION | SIGNED_IN | SIGNED_OUT | TOKEN_REFRESHED | USER_UPDATED | PASSWORD_RECOVERY

text \<open>
  The provider's four pieces of React state, and the role fetches that have been
  started and have not settled yet, each with the number under which it was issued
  and the user it asks about. A fetch started through \<open>setTimeout(..., 0)\<close> is in
  flight from the moment it is scheduled: nothing is written between the timer and
  the request.
\<close>

record auth_state =
  ctx_user :: "uuid option"
  ctx_session :: "session option"
  ctx_role :: "app_role option"
  ctx_loading :: bool
  in_flight :: "(nat \<times> uuid) list"
  issued :: nat

definition initial_state :: auth_state where
  "initial_state =
     \<lparr>ctx_user = None, ctx_session = None, ctx_role = None, ctx_loading = True,
      in_flight = [], issued = 0\<rparr>"

text \<open>
  What \<open>await supabase.rpc('get_user_role', ...)\<close> comes back with: the pair
  \<open>{ data, error }\<close>, or an exception.
\<close>

datatype rpc_outcome = Returned (data: "app_role option") (error: "pg_error option") | Threw

text \<open>The call itself, against the database: \<open>data\<close> is what \<open>get_user_role\<close> returns.\<close>

definition rpc_get_user_role :: "pg_error option \<Rightarrow> db \<Rightarrow> uuid \<Rightarrow> rpc_outcome" where
  "rpc_get_user_role net d u =
     (case net of
        Some e \<Rightarrow> Returned None (Some e)
      | None \<Rightarrow> Returned (get_user_role (user_roles d) u) None)"

text \<open>
  \<open>fetchUserRole\<close>, in two halves around its \<open>await\<close>: issuing the request, and the
  code that runs when the request settles (\<open>if (!error && data) setRole(data) else
  setRole('user')\<close>, and \<open>setRole('user')\<close> in the \<open>catch\<close>).
\<close>

definition fetchUserRole_issue :: "uuid \<Rightarrow> auth_state \<Rightarrow> auth_state" where
  "fetchUserRole_issue userId s =
     s\<lparr>in_flight := in_flight s @ [(issued s, userId)], issued := Suc (issued s)\<rparr>"

fun fetchUserRole_settle :: "rpc_outcome \<Rightarrow> auth_state \<Rightarrow> auth_state" where
  "fetchUserRole_settle (Returned dat err) s =
     (if err = None \<and> dat \<noteq> None then s\<lparr>ctx_role := dat\<rparr> else s\<lparr>ctx_role := Some User\<rparr>)"
| "fetchUserRole_settle Threw s = s\<lparr>ctx_role := Some User\<rparr>"

text \<open>The listener passed to \<open>supabase.auth.onAuthStateChange\<close>.\<close>

definition onAuthStateChange :: "auth_change_event \<Rightarrow> session option \<Rightarrow> auth_state \<Rightarrow> auth_state" where
  "onAuthStateChange event newSession s =
     (let s1 = s\<lparr>ctx_session := newSession, ctx_user := map_option s_user newSession\<rparr>;
          s2 = (if event = SIGNED_OUT
                then s1\<lparr>ctx_user := None, ctx_session := None, ctx_role := None\<rparr>
                else (case newSession of
                        Some ses \<Rightarrow> fetchUserRole_issue (s_user ses) s1
                      | None \<Rightarrow> s1))
      in s2\<lparr>ctx_loading := False\<rparr>)"

text \<open>The continuation of \<open>supabase.auth.getSession()\<close>.\<close>

definition getSession_then :: "session option \<Rightarrow> auth_state \<Rightarrow> auth_state" where
  "getSession_then data_session s =
     (let s1 = s\<lparr>ctx_session := data_session, ctx_user := map_option s_user data_session\<rparr>;
          s2 = (case data_session of
                  Some ses \<Rightarrow> fetchUserRole_issue (s_user ses) s1
                | None \<Rightarrow> s1)
      in s2\<lparr>ctx_loading := False\<rparr>)"

text \<open>
  The provider is driven by three kinds of event: a notification from the auth
  library, the answer to \<open>getSession\<close>, and a role fetch settling. Only a fetch that
  is in flight can settle; any other such event cannot happen (\<open>None\<close>).
\<close>

datatype event =
  AuthStateChange auth_change_event "session option"
| GetSessionResolved "session option"
| FetchSettles nat rpc_outcome

fun step :: "auth_state \<Rightarrow> event \<Rightarrow> auth_state option" where
  "step s (AuthStateChange ev ses) = Some (onAuthStateChange ev ses s)"
| "step s (GetSessionResolved ses) = Some (getSession_then ses s)"
| "step s (FetchSettles n out) =
     (if n \<in> fst ` set (in_flight s)
      then Some (fetchUserRole_settle out (s\<lparr>in_flight := filter (\<lambda>p. fst p \<noteq> n) (in_flight s)\<rparr>))
      else None)"

fun run :: "auth_state \<Rightarrow> event list \<Rightarrow> auth_state option" where
  "run s [] = Some s"
| "run s (e # es) = (case step s e of None \<Rightarrow> None | Some s' \<Rightarrow> run s' es)"

subsection \<open>\<open>useAuth\<close>\<close>

text \<open>
  \<open>useContext(C)\<close> gives the value of the nearest enclosing provider of \<open>C\<close>, or the
  default passed to \<open>createContext\<close> when there is none. The enclosing providers are
  listed innermost first. \<open>AuthContext\<close> is created with \<open>undefined\<close> as default,
  and \<open>AuthProvider\<close> always provides an object.
\<close>

definition useContext :: "'v option \<Rightarrow> 'v list \<Rightarrow> 'v option" where
  "useContext dflt providers = (case providers of [] \<Rightarrow> dflt | v # _ \<Rightarrow> Some v)"

definition AuthContext_default :: "'v option" where
  "AuthContext_default = None"

datatype js_error = JsError string

definition useAuth :: "'v list \<Rightarrow> js_error + 'v" where
  "useAuth providers =
     (case useContext AuthContext_default providers of
        None \<Rightarrow> Inl (JsError ''useAuth must be used within AuthProvider'')
      | Some ctx \<Rightarrow> Inr ctx)"

section \<open>Notions used in the statements, and example data\<close>

text \<open>
  The role that the settling half of \<open>fetchUserRole\<close> writes: the returned \<open>data\<close>
  when there is no error and \<open>data\<close> is not null, \<open>'user'\<close> in every other case.
\<close>

fun settled_role :: "rpc_outcome \<Rightarrow> app_role" where
  "settled_role (Returned (Some r) None) = r"
| "settled_role _ = User"

text \<open>A role fetch has failed when the call threw or came back with an error.\<close>

fun fetch_failed :: "rpc_outcome \<Rightarrow> bool" where
  "fetch_failed (Returned dat err) = (err \<noteq> None)"
| "fetch_failed Threw = True"

definition session_of :: "uuid \<Rightarrow> session" where
  "session_of u = \<lparr>s_user = u, s_access_token = ''token''\<rparr>"

definition role_row :: "uuid \<Rightarrow> app_role \<Rightarrow> user_role_row" where
  "role_row u r = \<lparr>user_id = u, role = r, approved_by = None, approved_at = None\<rparr>"

text \<open>A pending application \<open>i\<close> of user \<open>u\<close>.\<close>

definition application :: "uuid \<Rightarrow> uuid \<Rightarrow> application_row" where
  "application i u =
     \<lparr>a_id = i, a_user_id = u, a_full_name = ''A. Applicant'', a_phone = ''0700'',
      a_email = ''a@example.com'', a_company = None, a_license_number = None,
      a_experience_years = Some 3, a_status = Pending, a_reviewed_by = None,
      a_reviewed_at = None, a_notes = None\<rparr>"

text \<open>
  Four principals: 1 holds \<open>user\<close> and \<open>admin\<close>, 2 and 3 hold \<open>user\<close>, 4 holds
  exactly \<open>admin\<close>; principal 2 has the pending application 10. Principal 9 does not
  exist.
\<close>

definition demo_db :: db where
  "demo_db =
     \<lparr>auth_users = [1, 2, 3, 4],
      user_roles = [role_row 1 User, role_row 1 Admin, role_row 2 User, role_row 3 User,
                    role_row 4 Admin],
      profiles = [],
      agent_applications = [application 10 2]\<rparr>"

text \<open>
  The references to \<open>auth.users\<close> hold: every profile and every role assignment
  belongs to an existing user (\<open>user_id ... REFERENCES auth.users(id) ON DELETE
  CASCADE\<close>).
\<close>

definition references_hold :: "db \<Rightarrow> bool" where
  "references_hold d =
     (list_all (\<lambda>p. p_user_id p \<in> set (auth_users d)) (profiles d)
      \<and> list_all (\<lambda>r. user_id r \<in> set (auth_users d)) (user_roles d))"

text \<open>
  The surroundings of a request by principal \<open>u\<close> at time \<open>t\<close> in which both requests
  reach the database.
\<close>

definition request_env :: "uuid \<Rightarrow> timestamp \<Rightarrow> env" where
  "request_env u t =
     \<lparr>acting = Some u, net_update = None, net_insert = None, now_update = t, now_insert = t\<rparr>"

text \<open>The example database after principal 1 has approved application 10 at time 100.\<close>

definition approved_db :: db where
  "approved_db = fst (handleApplicationAction (request_env 1 100) demo_db 10 2 ActApproved)"

section \<open>Properties of the role store\<close>

lemma has_role_iff:
  "has_role rows (Some u) r \<longleftrightarrow> r \<in> role ` {x \<in> set rows. user_id x = u}"
  by (auto simp: has_role_def list_ex_iff)

lemma sorted_map_hd_least:
  assumes "sorted (map f xs)" and "y \<in> set xs"
  shows "f (hd xs) \<le> f y"
  using assms by (cases xs) auto

lemma get_user_role_None_iff:
  "get_user_role rows u = None \<longleftrightarrow> (\<forall>r. \<not> has_role rows (Some u) r)"
proof -
  let ?held = "map role (filter (\<lambda>x. user_id x = u) rows)"
  have "get_user_role rows u = None \<longleftrightarrow> sort_key role_rank ?held = []"
    by (simp add: get_user_role_def split: list.splits)
  also have "\<dots> \<longleftrightarrow> set ?held = {}"
    by (metis set_empty set_sort)
  also have "\<dots> \<longleftrightarrow> (\<forall>r. \<not> has_role rows (Some u) r)"
    by (auto simp: has_role_iff)
  finally show ?thesis .
qed

lemma get_user_role_Some:
  assumes "get_user_role rows u = Some r"
  shows "has_role rows (Some u) r"
    and "has_role rows (Some u) r' \<Longrightarrow> role_rank r \<le> role_rank r'"
proof -
  let ?held = "map role (filter (\<lambda>x. user_id x = u) rows)"
  let ?s = "sort_key role_rank ?held"
  from assms have ne: "?s \<noteq> []" and r: "r = hd ?s"
    by (auto simp: get_user_role_def split: list.splits)
  have srt: "sorted (map role_rank ?s)" by simp
  have st: "set ?s = set ?held" by simp
  have "hd ?s \<in> set ?s" by (rule hd_in_set [OF ne])
  then have "r \<in> set ?s" by (simp only: r [symmetric])
  then have "r \<in> set ?held" by (simp only: st)
  then show "has_role rows (Some u) r"
    by (auto simp: has_role_iff)
  assume "has_role rows (Some u) r'"
  then have "r' \<in> set ?held"
    by (auto simp: has_role_iff)
  then have "r' \<in> set ?s" by (simp only: st)
  from sorted_map_hd_least [OF srt this] r
  show "role_rank r \<le> role_rank r'" by simp
qed


text \<open>
  C2, as the function computes it. \<open>get_user_role\<close> returns the highest role the
  principal holds, in the order admin, agent, user. For a principal with no row in
  \<open>user_roles\<close> it returns NULL: the function has no default, and the
  default \<open>user\<close> is applied by the client when it stores the result.
\<close>

theorem get_user_role_precedence:
  "get_user_role rows u =
     (if has_role rows (Some u) Admin then Some Admin
      else if has_role rows (Some u) Agent then Some Agent
      else if has_role rows (Some u) User then Some User
      else None)"
proof (cases "get_user_role rows u")
  case None
  then show ?thesis by (simp add: get_user_role_None_iff)
next
  case (Some r)
  note held = get_user_role_Some(1) [OF Some]
  note least = get_user_role_Some(2) [OF Some]
  show ?thesis
  proof (cases r)
    case Admin
    with Some held show ?thesis by simp
  next
    case Agent
    have "\<not> has_role rows (Some u) Admin"
      using least [of Admin] Agent by auto
    with Some held Agent show ?thesis by simp
  next
    case User
    have "\<not> has_role rows (Some u) Admin" "\<not> has_role rows (Some u) Agent"
      using least [of Admin] least [of Agent] User by auto
    with Some held User show ?thesis by simp
  qed
qed

theorem get_user_role_precedence_witness:
  "get_user_role [role_row 2 User, role_row 2 Agent, role_row 1 Admin] 2 = Some Agent"
  using get_user_role_precedence [of "[role_row 2 User, role_row 2 Agent, role_row 1 Admin]" 2]
  by (simp add: has_role_def role_row_def)

text \<open>
  C2, as stated, fails for a principal without assignment: principal 9 has no row,
  and \<open>get_user_role\<close> returns NULL, not \<open>user\<close>.
\<close>

theorem get_user_role_no_assignment_counterexample:
  "filter (\<lambda>x. user_id x = 9) (user_roles demo_db) = []
   \<and> get_user_role (user_roles demo_db) 9 = None"
  by (simp add: demo_db_def role_row_def get_user_role_def)

text \<open>
  C5. The policy "Admins can view all roles" is decided by \<open>has_role\<close>, which is a
  function of the table \<open>user_roles\<close> itself and not of what \<open>select_user_roles\<close>
  shows the caller, so its evaluation never comes back to the policy. A principal
  holding the admin role (exactly that role, or others besides) reads every row of
  \<open>user_roles\<close>.
\<close>

theorem admin_reads_all_user_roles:
  assumes "has_role (user_roles d) (Some p) Admin"
  shows "select_user_roles d (Some p) = user_roles d"
  using assms by (simp add: select_user_roles_def admins_can_view_all_roles_def)

theorem admin_reads_all_user_roles_witness:
  "map role (filter (\<lambda>x. user_id x = 4) (user_roles demo_db)) = [Admin]
   \<and> select_user_roles demo_db (Some 4) = user_roles demo_db"
  using admin_reads_all_user_roles [of demo_db 4]
  by (simp add: demo_db_def role_row_def has_role_def)

section \<open>Properties of the session and role context\<close>

lemma fetchUserRole_settle_role:
  "ctx_role (fetchUserRole_settle out s) = Some (settled_role out)"
  by (cases "(out, s)" rule: fetchUserRole_settle.cases; cases out rule: settled_role.cases) auto

lemma fetchUserRole_settle_user:
  "ctx_user (fetchUserRole_settle out s) = ctx_user s"
  by (cases "(out, s)" rule: fetchUserRole_settle.cases) auto

lemma step_settles:
  assumes "n \<in> fst ` set (in_flight s)"
  shows "\<exists>s'. step s (FetchSettles n out) = Some s'
           \<and> ctx_role s' = Some (settled_role out) \<and> ctx_user s' = ctx_user s"
  using assms by (simp add: fetchUserRole_settle_role fetchUserRole_settle_user)

lemma signed_out_state:
  "ctx_user (onAuthStateChange SIGNED_OUT ses s) = None"
  "ctx_session (onAuthStateChange SIGNED_OUT ses s) = None"
  "ctx_role (onAuthStateChange SIGNED_OUT ses s) = None"
  "in_flight (onAuthStateChange SIGNED_OUT ses s) = in_flight s"
  by (simp_all add: onAuthStateChange_def)

text \<open>
  C7. When a role fetch of a signed-in principal fails (the call throws, or returns
  an error), the context sets the role to \<open>user\<close>; after the fetch has settled there
  is no state with a principal and no role.
\<close>

theorem failed_fetch_defaults_to_user:
  assumes "n \<in> fst ` set (in_flight s)" and "fetch_failed out"
  shows "\<exists>s'. step s (FetchSettles n out) = Some s' \<and> ctx_role s' = Some User
           \<and> \<not> (ctx_user s' \<noteq> None \<and> ctx_role s' = None)"
proof -
  from assms(2) have "settled_role out = User"
    by (cases out rule: settled_role.cases) auto
  moreover obtain s' where "step s (FetchSettles n out) = Some s'"
      and "ctx_role s' = Some (settled_role out)"
    using step_settles [OF assms(1)] by blast
  ultimately show ?thesis by (auto simp del: step.simps)
qed

theorem failed_fetch_defaults_to_user_witness:
  "\<exists>s'. run initial_state
           [AuthStateChange SIGNED_IN (Some (session_of 2)),
            FetchSettles 0 (Returned None (Some (PgError ''Failed to fetch'')))] = Some s'
        \<and> ctx_user s' = Some 2 \<and> ctx_role s' = Some User"
  using failed_fetch_defaults_to_user
          [of 0 "onAuthStateChange SIGNED_IN (Some (session_of 2)) initial_state"
              "Returned None (Some (PgError ''Failed to fetch''))"]
  by (simp add: onAuthStateChange_def fetchUserRole_issue_def initial_state_def session_of_def)

text \<open>
  C10. When \<open>get_user_role\<close> completes without an error and without data, the
  context sets the role to \<open>user\<close>; whatever a fetch settles with, the role is not
  null afterwards; and a principal without any row in \<open>user_roles\<close> is such a case:
  the call returns no data for it.
\<close>

theorem empty_fetch_defaults_to_user:
  assumes "n \<in> fst ` set (in_flight s)"
  shows "(\<exists>s'. step s (FetchSettles n (Returned None None)) = Some s' \<and> ctx_role s' = Some User)
       \<and> (\<forall>out. \<exists>s'. step s (FetchSettles n out) = Some s' \<and> ctx_role s' \<noteq> None)
       \<and> ((\<forall>r. \<not> has_role (user_roles d) (Some u) r)
            \<longrightarrow> rpc_get_user_role None d u = Returned None None)"
proof (intro conjI allI impI)
  show "\<exists>s'. step s (FetchSettles n (Returned None None)) = Some s' \<and> ctx_role s' = Some User"
    using step_settles [OF assms, of "Returned None None"] by (auto simp del: step.simps)
  show "\<exists>s'. step s (FetchSettles n out) = Some s' \<and> ctx_role s' \<noteq> None" for out
    using step_settles [OF assms, of out] by (auto simp del: step.simps)
  show "rpc_get_user_role None d u = Returned None None"
    if "\<forall>r. \<not> has_role (user_roles d) (Some u) r"
    using that by (simp add: rpc_get_user_role_def get_user_role_None_iff)
qed

theorem empty_fetch_defaults_to_user_witness:
  "rpc_get_user_role None demo_db 9 = Returned None None
   \<and> (\<exists>s'. run initial_state
           [GetSessionResolved (Some (session_of 9)),
            FetchSettles 0 (rpc_get_user_role None demo_db 9)] = Some s'
        \<and> ctx_user s' = Some 9 \<and> ctx_role s' = Some User)"
  using empty_fetch_defaults_to_user
          [where n = 0 and s = "getSession_then (Some (session_of 9)) initial_state"
             and d = demo_db and u = 9]
  by (simp add: getSession_then_def fetchUserRole_issue_def initial_state_def session_of_def
        has_role_def demo_db_def role_row_def)

text \<open>
  C3, as stated, fails. A fetch issued at sign-in that settles after \<open>SIGNED_OUT\<close>
  still writes its result, and the context ends with no principal and the role
  \<open>admin\<close>. And of two overlapping fetches, 0 issued by \<open>getSession\<close> and 1 issued
  by the listener, the one that settles last is kept: when 1 settles before 0, the
  context ends with the result of fetch 0.
\<close>

theorem sign_out_stale_fetch_counterexample:
  "run initial_state
     [AuthStateChange SIGNED_IN (Some (session_of 1)),
      AuthStateChange SIGNED_OUT None,
      FetchSettles 0 (Returned (Some Admin) None)]
   = Some \<lparr>ctx_user = None, ctx_session = None, ctx_role = Some Admin, ctx_loading = False,
           in_flight = [], issued = 1\<rparr>
   \<and> run initial_state
     [GetSessionResolved (Some (session_of 1)),
      AuthStateChange SIGNED_IN (Some (session_of 1)),
      FetchSettles 1 (Returned (Some Admin) None),
      FetchSettles 0 (Returned (Some User) None)]
   = Some \<lparr>ctx_user = Some 1, ctx_session = Some (session_of 1), ctx_role = Some User,
           ctx_loading = False, in_flight = [], issued = 2\<rparr>"
  by (simp add: onAuthStateChange_def getSession_then_def fetchUserRole_issue_def
        initial_state_def session_of_def)

text \<open>
  C3, as the provider behaves. \<open>SIGNED_OUT\<close> clears principal and role at once but
  does not cancel a fetch in flight: when that fetch settles afterwards, its result is
  written as the role while the principal stays null. In general any fetch in flight
  that settles writes its result, whichever fetch was issued last, so the result kept
  is that of the fetch that settled last.
\<close>

theorem sign_out_does_not_cancel_fetch:
  assumes "n \<in> fst ` set (in_flight s)"
  shows "(\<exists>s1 s2. step s (AuthStateChange SIGNED_OUT ses) = Some s1
            \<and> ctx_user s1 = None \<and> ctx_role s1 = None
            \<and> step s1 (FetchSettles n out) = Some s2
            \<and> ctx_user s2 = None \<and> ctx_role s2 = Some (settled_role out))
       \<and> (\<exists>s'. step s (FetchSettles n out) = Some s' \<and> ctx_role s' = Some (settled_role out))"
proof
  let ?s1 = "onAuthStateChange SIGNED_OUT ses s"
  have s1: "step s (AuthStateChange SIGNED_OUT ses) = Some ?s1" by simp
  from assms have "n \<in> fst ` set (in_flight ?s1)" by (simp only: signed_out_state)
  from step_settles [OF this, of out]
  obtain s2 where s2: "step ?s1 (FetchSettles n out) = Some s2"
      "ctx_role s2 = Some (settled_role out)" "ctx_user s2 = ctx_user ?s1"
    by blast
  from s2(3) have "ctx_user s2 = None" by (simp only: signed_out_state)
  with s1 s2(1,2) signed_out_state(1,3) [of ses s]
  show "\<exists>s1 s2. step s (AuthStateChange SIGNED_OUT ses) = Some s1
            \<and> ctx_user s1 = None \<and> ctx_role s1 = None
            \<and> step s1 (FetchSettles n out) = Some s2
            \<and> ctx_user s2 = None \<and> ctx_role s2 = Some (settled_role out)"
    by blast
  from step_settles [OF assms, of out]
  show "\<exists>s'. step s (FetchSettles n out) = Some s' \<and> ctx_role s' = Some (settled_role out)"
    by blast
qed

theorem sign_out_does_not_cancel_fetch_witness:
  "\<exists>s1 s2. run initial_state [GetSessionResolved (Some (session_of 1)),
                              AuthStateChange SIGNED_OUT None] = Some s1
     \<and> ctx_user s1 = None \<and> ctx_role s1 = None
     \<and> step s1 (FetchSettles 0 (Returned (Some Agent) None)) = Some s2
     \<and> ctx_user s2 = None \<and> ctx_role s2 = Some Agent"
  using sign_out_does_not_cancel_fetch
          [where n = 0 and s = "getSession_then (Some (session_of 1)) initial_state"
             and ses = None and out = "Returned (Some Agent) None"]
  by (simp add: getSession_then_def fetchUserRole_issue_def initial_state_def session_of_def)

section \<open>Properties of the policies and of the application workflow\<close>

lemma client_insert_error_unchanged:
  "client_insert_user_roles net d uid row = (d2, Some err) \<Longrightarrow> d2 = d"
  by (auto simp: client_insert_user_roles_def split: option.splits if_splits sum.splits)

lemma client_update_non_admin:
  assumes "\<not> has_role (user_roles d) uid Admin"
  shows "fst (client_update_agent_applications net d uid i st rv now) = d"
  using assms
  by (simp add: client_update_agent_applications_def admins_can_update_applications_def
        list_ex_iff split: option.splits)

lemma client_insert_non_admin:
  assumes "\<not> has_role (user_roles d) uid Admin"
  shows "fst (client_insert_user_roles net d uid row) = d"
  using assms
  by (simp add: client_insert_user_roles_def admins_can_insert_roles_def split: option.splits)

lemma client_update_admin:
  assumes "has_role (user_roles d) uid Admin" and "references_auth_users d rv"
  shows "client_update_agent_applications None d uid i st rv now =
           (d\<lparr>agent_applications :=
                 map (\<lambda>a. if a_id a = i
                           then a\<lparr>a_status := st,
                                   a_reviewed_by := (case rv of None \<Rightarrow> a_reviewed_by a | Some u \<Rightarrow> Some u),
                                   a_reviewed_at := Some now\<rparr>
                           else a)
                   (agent_applications d)\<rparr>, None)"
  using assms
  by (simp add: client_update_agent_applications_def admins_can_update_applications_def)

lemma str_includes_duplicate:
  "str_includes (message (unique_violation c)) ''duplicate''"
  by (simp add: unique_violation_def)

lemma client_insert_duplicate:
  assumes "has_role (user_roles d) uid Admin"
    and "has_role (user_roles d) (Some (user_id row)) (role row)"
  shows "client_insert_user_roles None d uid row =
           (d, Some (unique_violation ''user_roles_user_id_role_key''))"
  using assms
  by (simp add: client_insert_user_roles_def admins_can_insert_roles_def
        insert_into_user_roles_def has_role_def)

lemma updated_rows_status:
  "list_all (\<lambda>a. a_id a = i \<longrightarrow> a_status a = st)
     (map (\<lambda>a. if a_id a = i
               then a\<lparr>a_status := st,
                       a_reviewed_by := (case rv of None \<Rightarrow> a_reviewed_by a | Some u \<Rightarrow> Some u),
                       a_reviewed_at := Some now\<rparr>
               else a) apps)"
  by (induction apps) simp_all

lemma approved_db_eq:
  "approved_db =
     \<lparr>auth_users = [1, 2, 3, 4],
      user_roles = [role_row 1 User, role_row 1 Admin, role_row 2 User, role_row 3 User,
                    role_row 4 Admin,
                    \<lparr>user_id = 2, role = Agent, approved_by = Some 1, approved_at = Some 100\<rparr>],
      profiles = [],
      agent_applications =
        [(application 10 2)\<lparr>a_status := Approved, a_reviewed_by := Some 1,
                              a_reviewed_at := Some 100\<rparr>]\<rparr>"
  by (simp add: approved_db_def handleApplicationAction_def request_env_def demo_db_def
        client_update_agent_applications_def client_insert_user_roles_def
        admins_can_update_applications_def admins_can_insert_roles_def
        insert_into_user_roles_def references_auth_users_def has_role_def role_row_def
        application_def)

text \<open>
  C6. A principal that does not hold the admin role cannot update an application:
  the update policy admits no row for it, so the update request leaves the database
  as it was, and so does the whole of \<open>handleApplicationAction\<close>; in particular a
  pending application stays pending.
\<close>

theorem non_admin_cannot_update_application:
  assumes "\<not> has_role (user_roles d) (acting e) Admin"
  shows "fst (client_update_agent_applications net d (acting e) applicationId status reviewer now) = d
       \<and> fst (handleApplicationAction e d applicationId userId act) = d"
proof
  show "fst (client_update_agent_applications net d (acting e) applicationId status reviewer now) = d"
    by (rule client_update_non_admin [OF assms])
  let ?u = "client_update_agent_applications (net_update e) d (acting e) applicationId
              (action_status act) (acting e) (now_update e)"
  have u: "fst ?u = d" by (rule client_update_non_admin [OF assms])
  show "fst (handleApplicationAction e d applicationId userId act) = d"
  proof (cases ?u)
    case (Pair d1 r)
    with u have d1: "d1 = d" by simp
    show ?thesis
    proof (cases r)
      case (Some err)
      with Pair d1 show ?thesis by (simp add: handleApplicationAction_def)
    next
      case None
      show ?thesis
      proof (cases act)
        case ActRejected
        with Pair None d1 show ?thesis by (simp add: handleApplicationAction_def)
      next
        case ActApproved
        let ?i = "client_insert_user_roles (net_insert e) d (acting e)
                    \<lparr>user_id = userId, role = Agent, approved_by = acting e,
                     approved_at = Some (now_insert e)\<rparr>"
        have "fst ?i = d" by (rule client_insert_non_admin [OF assms])
        with Pair None d1 ActApproved show ?thesis
          by (cases ?i) (simp add: handleApplicationAction_def split: option.splits)
      qed
    qed
  qed
qed

theorem non_admin_cannot_update_application_witness:
  "\<not> has_role (user_roles demo_db) (Some 3) Admin
   \<and> fst (handleApplicationAction (request_env 3 50) demo_db 10 2 ActApproved) = demo_db
   \<and> map a_status (agent_applications demo_db) = [Pending]"
  using non_admin_cannot_update_application [of demo_db "request_env 3 50" None 10 Approved None 50 2 ActApproved]
  by (simp add: request_env_def demo_db_def has_role_def role_row_def application_def)

text \<open>
  C1, as stated, fails: the admin 1 approves application 10 of principal 2, the
  update is applied, the role insert fails with a network error; the handler reports
  the failure, and the application is left approved while principal 2 has no agent
  role.
\<close>

theorem role_grant_failure_counterexample:
  "snd (handleApplicationAction
          ((request_env 1 100)\<lparr>net_insert := Some (PgError ''Failed to fetch'')\<rparr>)
          demo_db 10 2 ActApproved) = ToastError ''Failed to update application''
   \<and> map a_status (agent_applications demo_db) = [Pending]
   \<and> map a_status (agent_applications (fst (handleApplicationAction
          ((request_env 1 100)\<lparr>net_insert := Some (PgError ''Failed to fetch'')\<rparr>)
          demo_db 10 2 ActApproved))) = [Approved]
   \<and> \<not> has_role (user_roles (fst (handleApplicationAction
          ((request_env 1 100)\<lparr>net_insert := Some (PgError ''Failed to fetch'')\<rparr>)
          demo_db 10 2 ActApproved))) (Some 2) Agent"
  by (simp add: handleApplicationAction_def request_env_def demo_db_def
        client_update_agent_applications_def client_insert_user_roles_def
        admins_can_update_applications_def admins_can_insert_roles_def
        references_auth_users_def has_role_def role_row_def application_def)

text \<open>
  C1, as the handler behaves. The status update and the role grant are two separate
  requests and not one atomic step. When the update of an admin has been applied and
  the role insert then fails for a reason other than a conflict (its message does not
  contain \<open>duplicate\<close>), the handler reports failure and no role is granted, but the
  update is not undone: the database is left as the update made it, with the
  application marked approved.
\<close>

theorem role_grant_failure_keeps_status_update:
  assumes admin: "has_role (user_roles d) (acting e) Admin"
    and upd: "client_update_agent_applications (net_update e) d (acting e) applicationId
                Approved (acting e) (now_update e) = (d', None)"
    and ins: "snd (client_insert_user_roles (net_insert e) d' (acting e)
                \<lparr>user_id = userId, role = Agent, approved_by = acting e,
                 approved_at = Some (now_insert e)\<rparr>) = Some roleError"
    and other: "\<not> str_includes (message roleError) ''duplicate''"
  shows "handleApplicationAction e d applicationId userId ActApproved
           = (d', ToastError ''Failed to update application'')
       \<and> user_roles d' = user_roles d
       \<and> map a_id (agent_applications d') = map a_id (agent_applications d)
       \<and> list_all (\<lambda>a. a_id a = applicationId \<longrightarrow> a_status a = Approved) (agent_applications d')"
proof (intro conjI)
  let ?row = "\<lparr>user_id = userId, role = Agent, approved_by = acting e,
               approved_at = Some (now_insert e)\<rparr>"
  obtain d2 where i: "client_insert_user_roles (net_insert e) d' (acting e) ?row = (d2, Some roleError)"
    using ins by (cases "client_insert_user_roles (net_insert e) d' (acting e) ?row") simp
  have "d2 = d'" by (rule client_insert_error_unchanged [OF i])
  with upd i other
  show "handleApplicationAction e d applicationId userId ActApproved
          = (d', ToastError ''Failed to update application'')"
    by (simp add: handleApplicationAction_def)
  from upd have d': "d' = d\<lparr>agent_applications :=
                 map (\<lambda>a. if a_id a = applicationId
                           then a\<lparr>a_status := Approved,
                                   a_reviewed_by := (case acting e of None \<Rightarrow> a_reviewed_by a | Some u \<Rightarrow> Some u),
                                   a_reviewed_at := Some (now_update e)\<rparr>
                           else a)
                   (agent_applications d)\<rparr>"
    using admin
    by (auto simp: client_update_agent_applications_def admins_can_update_applications_def
          Let_def split: option.splits if_splits)
  show "user_roles d' = user_roles d" by (simp add: d')
  show "map a_id (agent_applications d') = map a_id (agent_applications d)"
    by (simp add: d' comp_def)
  have "agent_applications d' =
          map (\<lambda>a. if a_id a = applicationId
                    then a\<lparr>a_status := Approved,
                            a_reviewed_by := (case acting e of None \<Rightarrow> a_reviewed_by a | Some u \<Rightarrow> Some u),
                            a_reviewed_at := Some (now_update e)\<rparr>
                    else a)
            (agent_applications d)"
    by (simp add: d')
  then show "list_all (\<lambda>a. a_id a = applicationId \<longrightarrow> a_status a = Approved) (agent_applications d')"
    by (simp only: updated_rows_status)
qed

theorem role_grant_failure_keeps_status_update_witness:
  "handleApplicationAction
     ((request_env 1 100)\<lparr>net_insert := Some (PgError ''Failed to fetch'')\<rparr>)
     demo_db 10 2 ActApproved
   = (demo_db\<lparr>agent_applications :=
                 [(application 10 2)\<lparr>a_status := Approved, a_reviewed_by := Some 1,
                                       a_reviewed_at := Some 100\<rparr>]\<rparr>,
      ToastError ''Failed to update application'')"
  using role_grant_failure_keeps_status_update
    [where e = "(request_env 1 100)\<lparr>net_insert := Some (PgError ''Failed to fetch'')\<rparr>"
       and d = demo_db and applicationId = 10 and userId = 2
       and roleError = "PgError ''Failed to fetch''"
       and d' = "demo_db\<lparr>agent_applications :=
                 [(application 10 2)\<lparr>a_status := Approved, a_reviewed_by := Some 1,
                                       a_reviewed_at := Some 100\<rparr>]\<rparr>"]
  by (simp add: request_env_def demo_db_def
        client_update_agent_applications_def client_insert_user_roles_def
        admins_can_update_applications_def
        references_auth_users_def has_role_def role_row_def application_def)

text \<open>
  C4, as stated, fails: approving the approved application 10 a second time, at time
  200, does not leave the state as it was; \<open>reviewed_at\<close> changes from 100 to 200.
\<close>

theorem second_approval_counterexample:
  "fst (handleApplicationAction (request_env 1 200) approved_db 10 2 ActApproved) \<noteq> approved_db
   \<and> map a_reviewed_at (agent_applications approved_db) = [Some 100]
   \<and> map a_reviewed_at (agent_applications
        (fst (handleApplicationAction (request_env 1 200) approved_db 10 2 ActApproved))) = [Some 200]"
  by (simp add: approved_db_eq handleApplicationAction_def request_env_def
        client_update_agent_applications_def client_insert_user_roles_def
        admins_can_update_applications_def admins_can_insert_roles_def
        insert_into_user_roles_def references_auth_users_def has_role_def role_row_def
        application_def unique_violation_def)

text \<open>
  C4, as the handler behaves. When an admin approves an application that is already
  approved and whose applicant already holds the agent role, and both requests reach
  the database, the handler reports success (the duplicate-key error of the role
  insert is treated as success), \<open>user_roles\<close> is unchanged (no duplicate row) and
  the status stays approved; the only change is that \<open>reviewed_by\<close> and
  \<open>reviewed_at\<close> of the application are overwritten with the second reviewer and
  time.
\<close>

theorem second_approval_overwrites_review_only:
  assumes admin: "has_role (user_roles d) (acting e) Admin"
    and known: "references_auth_users d (acting e)"
    and reach: "net_update e = None" "net_insert e = None"
    and agent: "has_role (user_roles d) (Some userId) Agent"
    and approved: "list_all (\<lambda>a. a_id a = applicationId \<longrightarrow> a_status a = Approved)
                     (agent_applications d)"
  shows "handleApplicationAction e d applicationId userId ActApproved =
           (d\<lparr>agent_applications :=
                 map (\<lambda>a. if a_id a = applicationId
                           then a\<lparr>a_reviewed_by := acting e,
                                   a_reviewed_at := Some (now_update e)\<rparr>
                           else a)
                   (agent_applications d)\<rparr>,
            ToastSuccess ''Application approved'')"
proof -
  from admin obtain u where u: "acting e = Some u"
    by (cases "acting e") (simp_all add: has_role_def)
  let ?row = "\<lparr>user_id = userId, role = Agent, approved_by = acting e,
               approved_at = Some (now_insert e)\<rparr>"
  define apps where "apps =
    map (\<lambda>a. if a_id a = applicationId
              then a\<lparr>a_reviewed_by := acting e, a_reviewed_at := Some (now_update e)\<rparr>
              else a)
      (agent_applications d)"
  define da where "da = d\<lparr>agent_applications := apps\<rparr>"
  have same: "map (\<lambda>a. if a_id a = applicationId
                   then a\<lparr>a_status := Approved,
                           a_reviewed_by := (case acting e of None \<Rightarrow> a_reviewed_by a | Some u \<Rightarrow> Some u),
                           a_reviewed_at := Some (now_update e)\<rparr>
                   else a) (agent_applications d) = apps"
    unfolding apps_def using approved by (auto simp: list_all_iff u)
  have upd: "client_update_agent_applications (net_update e) d (acting e) applicationId
               (action_status ActApproved) (acting e) (now_update e) = (da, None)"
    using client_update_admin [OF admin known, of applicationId Approved "now_update e"]
    by (simp only: reach same da_def action_status.simps)
  have "has_role (user_roles da) (acting e) Admin"
    and "has_role (user_roles da) (Some (user_id ?row)) (role ?row)"
    using admin agent by (simp_all add: da_def)
  from client_insert_duplicate [OF this]
  have ins: "client_insert_user_roles (net_insert e) da (acting e) ?row
             = (da, Some (unique_violation ''user_roles_user_id_role_key''))"
    by (simp only: reach)
  have "handleApplicationAction e d applicationId userId ActApproved
          = (da, ToastSuccess ''Application approved'')"
    unfolding handleApplicationAction_def upd
    by (simp add: ins str_includes_duplicate)
  then show ?thesis by (simp only: da_def apps_def)
qed

theorem second_approval_overwrites_review_only_witness:
  "handleApplicationAction (request_env 4 200) approved_db 10 2 ActApproved =
     (approved_db\<lparr>agent_applications :=
                     [(application 10 2)\<lparr>a_status := Approved, a_reviewed_by := Some 4,
                                           a_reviewed_at := Some 200\<rparr>]\<rparr>,
      ToastSuccess ''Application approved'')"
  using second_approval_overwrites_review_only
          [where e = "request_env 4 200" and d = approved_db and applicationId = 10 and userId = 2]
  by (simp add: approved_db_eq request_env_def references_auth_users_def has_role_def
        role_row_def application_def)

section \<open>Properties of account creation\<close>

lemma filter_none: "list_all (\<lambda>x. f x \<noteq> k) xs \<Longrightarrow> filter (\<lambda>x. f x = k) xs = []"
  by (induction xs) auto

lemma list_ex_none: "list_all (\<lambda>x. f x \<noteq> k) xs \<Longrightarrow> \<not> list_ex (\<lambda>x. f x = k \<and> P x) xs"
  by (induction xs) auto

lemma fresh_has_no_rows:
  assumes "references_hold d" and "u \<notin> set (auth_users d)"
  shows "list_all (\<lambda>p. p_user_id p \<noteq> u) (profiles d)"
    and "list_all (\<lambda>r. user_id r \<noteq> u) (user_roles d)"
  using assms by (auto simp: references_hold_def list_all_iff)

text \<open>
  C8. Creating a principal whose identifier is new, in a database whose references
  hold, succeeds, and right after it there is exactly one profile of the principal
  and exactly one role assignment, with role \<open>user\<close>. Both rows are written by the
  trigger inside the statement that creates the account: the three rows appear
  together in the one resulting database.
\<close>

theorem new_user_gets_profile_and_user_role:
  assumes "references_hold d" and "nu_id new \<notin> set (auth_users d)"
  shows "\<exists>d'. insert_into_auth_users d new = Inr d'
           \<and> auth_users d' = auth_users d @ [nu_id new]
           \<and> filter (\<lambda>p. p_user_id p = nu_id new) (profiles d')
               = [\<lparr>p_user_id = nu_id new, p_full_name = nu_full_name new,
                   p_phone = None, p_avatar_url = None\<rparr>]
           \<and> filter (\<lambda>r. user_id r = nu_id new) (user_roles d')
               = [\<lparr>user_id = nu_id new, role = User, approved_by = None, approved_at = None\<rparr>]
           \<and> agent_applications d' = agent_applications d
           \<and> references_hold d'"
proof -
  note fresh = fresh_has_no_rows [OF assms]
  have np: "\<not> list_ex (\<lambda>x. p_user_id x = nu_id new) (profiles d)"
    using list_ex_none [OF fresh(1), of "\<lambda>_. True"] by simp
  have nr: "\<not> list_ex (\<lambda>x. user_id x = nu_id new \<and> role x = User) (user_roles d)"
    by (rule list_ex_none [OF fresh(2)])
  have fp: "filter (\<lambda>p. p_user_id p = nu_id new) (profiles d) = []"
    by (rule filter_none [OF fresh(1)])
  have fr: "filter (\<lambda>r. user_id r = nu_id new) (user_roles d) = []"
    by (rule filter_none [OF fresh(2)])
  have keep: "list_all (\<lambda>p. p_user_id p = nu_id new \<or> p_user_id p \<in> set (auth_users d)) (profiles d)"
    "list_all (\<lambda>r. user_id r = nu_id new \<or> user_id r \<in> set (auth_users d)) (user_roles d)"
    using assms(1) by (auto simp: references_hold_def list_all_iff)
  show ?thesis
    using assms(2) np nr fp fr keep
    by (simp add: insert_into_auth_users_def handle_new_user_def insert_into_profiles_def
          insert_into_user_roles_def references_auth_users_def references_hold_def)
qed

theorem new_user_gets_profile_and_user_role_witness:
  "\<exists>d'. insert_into_auth_users demo_db \<lparr>nu_id = 5, nu_full_name = Some ''Jane''\<rparr> = Inr d'
      \<and> profiles d' = [\<lparr>p_user_id = 5, p_full_name = Some ''Jane'', p_phone = None,
                         p_avatar_url = None\<rparr>]
      \<and> filter (\<lambda>r. user_id r = 5) (user_roles d') = [role_row 5 User]"
  using new_user_gets_profile_and_user_role
          [of demo_db "\<lparr>nu_id = 5, nu_full_name = Some ''Jane''\<rparr>"]
  by (simp add: references_hold_def demo_db_def role_row_def insert_into_auth_users_def
        handle_new_user_def insert_into_profiles_def insert_into_user_roles_def
        references_auth_users_def)

section \<open>Properties of \<open>useAuth\<close>\<close>

text \<open>
  C9. \<open>useAuth\<close> with no enclosing \<open>AuthProvider\<close> throws the error "useAuth must be
  used within AuthProvider"; it returns no context value.
\<close>

theorem useAuth_outside_AuthProvider:
  "useAuth [] = Inl (JsError ''useAuth must be used within AuthProvider'')"
  by (simp add: useAuth_def useContext_def AuthContext_default_def)

end
